theory Spec2Isabelle
  imports Main
begin

section \<open>Bytes and text\<close>

text \<open>
  A Python \<open>bytes\<close> value is a list of 8-bit characters. A Python \<open>str\<close> is a sequence of
  Unicode code points; it is represented here by its UTF-8 encoding, so that
  \<open>bytes.decode('utf-8')\<close> is a validity check that returns its argument, \<open>str.encode()\<close>
  is the identity, and an f-string is a concatenation. Operations that count or classify
  code points (\<open>len\<close>, \<open>strip\<close>) work on the segmentation \<open>utf8_chars\<close> of the
  representation into encoded characters.
\<close>

type_synonym bytes = "char list"
type_synonym str = "char list"

definition CR :: char where "CR = CHR 0x0D"
definition LF :: char where "LF = CHR 0x0A"
definition CRLF :: "char list" where "CRLF = [CR, LF]"

definition byte :: "char \<Rightarrow> nat" where
  "byte c = of_char c"

definition is_cont :: "char \<Rightarrow> bool" where
  "is_cont c = (128 \<le> byte c \<and> byte c < 192)"

text \<open>The strict UTF-8 decoder: shortest forms only, no surrogates, nothing above U+10FFFF.\<close>

fun utf8_valid :: "bytes \<Rightarrow> bool" where
  "utf8_valid [] = True"
| "utf8_valid (c # cs) =
     (let b = byte c in
      if b < 128 then utf8_valid cs
      else if 194 \<le> b \<and> b \<le> 223 then
        (case cs of c1 # r \<Rightarrow> is_cont c1 \<and> utf8_valid r | _ \<Rightarrow> False)
      else if 224 \<le> b \<and> b \<le> 239 then
        (case cs of c1 # c2 # r \<Rightarrow>
           is_cont c1 \<and> is_cont c2 \<and> (b = 224 \<longrightarrow> 160 \<le> byte c1) \<and> (b = 237 \<longrightarrow> byte c1 < 160)
           \<and> utf8_valid r
         | _ \<Rightarrow> False)
      else if 240 \<le> b \<and> b \<le> 244 then
        (case cs of c1 # c2 # c3 # r \<Rightarrow>
           is_cont c1 \<and> is_cont c2 \<and> is_cont c3 \<and> (b = 240 \<longrightarrow> 144 \<le> byte c1)
           \<and> (b = 244 \<longrightarrow> byte c1 < 144) \<and> utf8_valid r
         | _ \<Rightarrow> False)
      else False)"

text \<open>\<open>bytes.decode('utf-8')\<close>: \<open>None\<close> stands for \<open>UnicodeDecodeError\<close>.\<close>

definition decode :: "bytes \<Rightarrow> str option" where
  "decode b = (if utf8_valid b then Some b else None)"

text \<open>The encoded characters of a text: each lead byte with the continuation bytes after it.\<close>

function utf8_chars :: "str \<Rightarrow> str list" where
  "utf8_chars [] = []"
| "utf8_chars (c # cs) = (c # takeWhile is_cont cs) # utf8_chars (dropWhile is_cont cs)"
  by pat_completeness auto
termination
  by (relation "measure length") (auto simp: length_dropWhile_le less_Suc_eq_le)

text \<open>\<open>len(s)\<close> of a \<open>str\<close>: the number of code points.\<close>

definition py_len :: "str \<Rightarrow> nat" where
  "py_len s = length (utf8_chars s)"

text \<open>
  The characters \<open>str.strip()\<close> removes (\<open>str.isspace\<close>): U+0009..U+000D, U+001C..U+0020,
  U+0085, U+00A0, U+1680, U+2000..U+200A, U+2028, U+2029, U+202F, U+205F, U+3000.
\<close>

definition is_space :: "str \<Rightarrow> bool" where
  "is_space ch =
     (case map byte ch of
        [b] \<Rightarrow> (9 \<le> b \<and> b \<le> 13) \<or> (28 \<le> b \<and> b \<le> 32)
      | [b0, b1] \<Rightarrow> b0 = 194 \<and> (b1 = 133 \<or> b1 = 160)
      | [b0, b1, b2] \<Rightarrow>
          (b0 = 225 \<and> b1 = 154 \<and> b2 = 128)
          \<or> (b0 = 226 \<and> b1 = 128 \<and> ((128 \<le> b2 \<and> b2 \<le> 138) \<or> b2 = 168 \<or> b2 = 169 \<or> b2 = 175))
          \<or> (b0 = 226 \<and> b1 = 129 \<and> b2 = 159)
          \<or> (b0 = 227 \<and> b1 = 128 \<and> b2 = 128)
      | _ \<Rightarrow> False)"

definition strip :: "str \<Rightarrow> str" where
  "strip s = concat (rev (dropWhile is_space (rev (dropWhile is_space (utf8_chars s)))))"

fun startswith :: "str \<Rightarrow> str \<Rightarrow> bool" where
  "startswith s [] = True"
| "startswith [] (p # ps) = False"
| "startswith (c # cs) (p # ps) = (c = p \<and> startswith cs ps)"

text \<open>The first occurrence of a separator: the text before it and the text after it.\<close>

fun find_sep :: "str \<Rightarrow> str \<Rightarrow> (str \<times> str) option" where
  "find_sep sep [] = (if sep = [] then Some ([], []) else None)"
| "find_sep sep (c # cs) =
     (if startswith (c # cs) sep then Some ([], drop (length sep) (c # cs))
      else case find_sep sep cs of
             None \<Rightarrow> None
           | Some (a, b) \<Rightarrow> Some (c # a, b))"

text \<open>\<open>sep in s\<close> and \<open>s.split(sep, maxsplit)\<close> for a non-empty separator.\<close>

definition contains :: "str \<Rightarrow> str \<Rightarrow> bool" where
  "contains s sep = (find_sep sep s \<noteq> None)"

fun py_split :: "str \<Rightarrow> nat \<Rightarrow> str \<Rightarrow> str list" where
  "py_split sep 0 s = [s]"
| "py_split sep (Suc n) s =
     (case find_sep sep s of
        None \<Rightarrow> [s]
      | Some (a, b) \<Rightarrow> a # py_split sep n b)"

subsection \<open>Integers and text\<close>

definition digit_char :: "nat \<Rightarrow> char" where
  "digit_char d = char_of (48 + d)"

fun str_nat :: "nat \<Rightarrow> str" where
  "str_nat n = (if n < 10 then [digit_char n] else str_nat (n div 10) @ [digit_char (n mod 10)])"

declare str_nat.simps [simp del]

text \<open>\<open>str(i)\<close> of an \<open>int\<close>.\<close>

definition py_str :: "int \<Rightarrow> str" where
  "py_str i = (if i < 0 then CHR ''-'' # str_nat (nat (- i)) else str_nat (nat i))"

text \<open>
  \<open>int(s)\<close> of a \<open>str\<close>, base 10: ASCII white space around an optional sign and decimal
  digits, single underscores allowed between digits. A non-ASCII space counts as a space;
  any other non-ASCII character makes the literal invalid (the decimal digits of other
  scripts, which \<open>int\<close> also accepts, are not modelled). A literal of more than 4300 digits
  is refused with a \<open>ValueError\<close> of its own.
\<close>

datatype int_result = IntOk int | InvalidLiteral | ExceedsDigitLimit

definition is_digit :: "char \<Rightarrow> bool" where
  "is_digit c = (48 \<le> byte c \<and> byte c \<le> 57)"

definition py_isspace :: "char \<Rightarrow> bool" where
  "py_isspace c = ((9 \<le> byte c \<and> byte c \<le> 13) \<or> byte c = 32)"

definition to_ascii :: "str \<Rightarrow> char" where
  "to_ascii ch =
     (case ch of
        [c] \<Rightarrow> (if byte c < 128 then c else CHR ''?'')
      | _ \<Rightarrow> (if is_space ch then CHR '' '' else CHR ''?''))"

fun digits_ok :: "string \<Rightarrow> bool" where
  "digits_ok [] = False"
| "digits_ok [c] = is_digit c"
| "digits_ok (c # d # r) =
     (is_digit c \<and> (if d = CHR ''_'' then digits_ok r else digits_ok (d # r)))"

definition digits_value :: "string \<Rightarrow> nat" where
  "digits_value ds = foldl (\<lambda>acc c. 10 * acc + (byte c - 48)) 0 (filter is_digit ds)"

definition py_int :: "str \<Rightarrow> int_result" where
  "py_int s =
     (let t = dropWhile py_isspace (map to_ascii (utf8_chars s));
          neg = (case t of c # r \<Rightarrow> c = CHR ''-'' | [] \<Rightarrow> False);
          u = (case t of c # r \<Rightarrow> (if c = CHR ''+'' \<or> c = CHR ''-'' then r else t) | [] \<Rightarrow> t);
          ds = takeWhile (\<lambda>c. is_digit c \<or> c = CHR ''_'') u;
          rest = dropWhile py_isspace (dropWhile (\<lambda>c. is_digit c \<or> c = CHR ''_'') u)
      in if \<not> digits_ok ds \<or> rest \<noteq> [] then InvalidLiteral
         else if 4300 < length (filter is_digit ds) then ExceedsDigitLimit
         else IntOk (if neg then - int (digits_value ds) else int (digits_value ds)))"

section \<open>The request and its headers\<close>

text \<open>
  A Python \<open>dict\<close> keeps its keys in insertion order: storing under an existing key
  replaces the value in place, storing under a new key appends.
\<close>

type_synonym dict = "(str \<times> str) list"

fun dict_set :: "dict \<Rightarrow> str \<Rightarrow> str \<Rightarrow> dict" where
  "dict_set [] k v = [(k, v)]"
| "dict_set ((k', v') # d) k v = (if k' = k then (k, v) # d else (k', v') # dict_set d k v)"

definition dict_get :: "dict \<Rightarrow> str \<Rightarrow> str option" where
  "dict_get d k = map_of d k"

text \<open>The request of \<open>parser.py\<close>; its field \<open>method\<close> is \<open>http_method\<close> here, since
  \<open>method\<close> is a keyword of the prover.\<close>

record HTTPRequest =
  http_method :: str
  path :: str
  version :: str
  headers :: dict
  body :: bytes

definition MAX_REQUEST_LINE :: nat where "MAX_REQUEST_LINE = 4096"
definition MAX_HEADER_SIZE :: nat where "MAX_HEADER_SIZE = 8192"
definition MAX_HEADERS :: nat where "MAX_HEADERS = 100"
definition MAX_TOTAL_HEADERS :: nat where "MAX_TOTAL_HEADERS = 65536"
definition MAX_BODY_SIZE :: int where "MAX_BODY_SIZE = 10000000"

section \<open>Exceptions\<close>

text \<open>
  Every \<open>ValueError\<close> the parser can raise, one constructor for each message of
  \<open>parse_request_production\<close>; \<open>UnicodeDecodeError\<close> is a subclass of \<open>ValueError\<close>.
  \<open>MalformedRequestLine\<close> carries the exception it was raised \<open>from\<close>.
\<close>

datatype cause =
    NotEnoughValues nat
  | UnsupportedHTTPVersion str

datatype value_error =
    RequestLineTimeout
  | DisconnectedBeforeRequestLine
  | RequestLineTooLong nat
  | UnicodeDecodeError
  | MalformedRequestLine str cause
  | HeaderTimeout
  | DisconnectedMidHeaders
  | HeadersTooBig nat
  | HeaderTooLong nat
  | TooManyHeaders nat
  | InvalidContentLength str
  | IntegerStringTooLong
  | BodyTooBig int
  | NegativeReadSize
  | BodyTimeout
  | DisconnectedBeforeFullBody

text \<open>
  The exception classes the code tells apart: \<open>ValueError\<close>, \<open>asyncio.TimeoutError\<close>,
  \<open>asyncio.IncompleteReadError\<close>, and any other \<open>Exception\<close> (a connection error of the
  transport).
\<close>

datatype exn =
    ValueError value_error
  | TimeoutError
  | IncompleteReadError
  | ConnectionError

section \<open>The stream reader\<close>

text \<open>
  The client's side of a connection: the bytes that arrive in time, and what a read
  finds once they are used up. \<open>Eof\<close>: the client has closed the stream. \<open>Stalled\<close>: the
  client sends nothing more, so a read under \<open>asyncio.wait_for\<close> times out. \<open>Broken\<close>:
  the transport fails and the read raises a connection error. A read returns its bytes
  or the exception it raises, and the reader after it.
\<close>

datatype stream_end = Eof | Stalled | Broken

record StreamReader =
  buffer :: bytes
  at_end :: stream_end

definition starved :: "StreamReader \<Rightarrow> exn" where
  "starved r = (case at_end r of Stalled \<Rightarrow> TimeoutError | _ \<Rightarrow> ConnectionError)"

text \<open>\<open>wait_for(reader.readline(), timeout)\<close>: up to and including the next line feed; at
  end of stream, whatever is left (nothing, for a stream already used up).\<close>

definition readline :: "StreamReader \<Rightarrow> (exn + bytes) \<times> StreamReader" where
  "readline r =
     (case find_sep [LF] (buffer r) of
        Some (a, b) \<Rightarrow> (Inr (a @ [LF]), r\<lparr>buffer := b\<rparr>)
      | None \<Rightarrow>
          (if at_end r = Eof then (Inr (buffer r), r\<lparr>buffer := []\<rparr>)
           else (Inl (starved r), r)))"

text \<open>\<open>wait_for(reader.readexactly(n), timeout)\<close>.\<close>

definition readexactly :: "int \<Rightarrow> StreamReader \<Rightarrow> (exn + bytes) \<times> StreamReader" where
  "readexactly n r =
     (if n < 0 then (Inl (ValueError NegativeReadSize), r)
      else if n = 0 then (Inr [], r)
      else if nat n \<le> length (buffer r)
        then (Inr (take (nat n) (buffer r)), r\<lparr>buffer := drop (nat n) (buffer r)\<rparr>)
      else if at_end r = Eof then (Inl IncompleteReadError, r\<lparr>buffer := []\<rparr>)
      else (Inl (starved r), r))"

section \<open>The request parser\<close>

text \<open>
  \<open>parse_request_production\<close> returns the request or the exception it raises, and the
  reader as it leaves it. Its \<open>client_addr\<close> argument is only logged and is left out.
\<close>

text \<open>Lines 55 to 60: the split of the request line, inside its \<open>try\<close>.\<close>

definition parse_request_line :: "str \<Rightarrow> value_error + (str \<times> str \<times> str)" where
  "parse_request_line request_line =
     (case py_split '' '' 2 request_line of
        [m, p, v] \<Rightarrow>
          (if v = ''HTTP/1.0'' \<or> v = ''HTTP/1.1'' then Inr (m, p, v)
           else Inl (MalformedRequestLine request_line (UnsupportedHTTPVersion v)))
      | parts \<Rightarrow> Inl (MalformedRequestLine request_line (NotEnoughValues (length parts))))"

lemma find_sep_parts: "find_sep sep s = Some (a, b) \<Longrightarrow> length b + length sep \<le> length s"
proof (induction s arbitrary: a)
  case Nil
  then show ?case by (simp split: if_splits)
next
  case (Cons c cs)
  show ?case
  proof (cases "startswith (c # cs) sep")
    case True
    have "startswith t q \<Longrightarrow> length q \<le> length t" for t q
      by (induction t q rule: startswith.induct) auto
    with True Cons.prems show ?thesis by fastforce
  next
    case False
    with Cons show ?thesis by (fastforce split: option.splits)
  qed
qed

lemma readline_shrinks:
  "readline r = (Inr l, r') \<Longrightarrow> l \<noteq> [] \<Longrightarrow> length (buffer r') < length (buffer r)"
  by (auto simp: readline_def split: option.splits if_splits dest: find_sep_parts)

text \<open>Lines 63 to 94: the header loop, with its running totals.\<close>

function read_headers ::
  "StreamReader \<Rightarrow> nat \<Rightarrow> nat \<Rightarrow> dict \<Rightarrow> (exn + dict \<times> nat \<times> nat) \<times> StreamReader" where
  "read_headers reader total_size header_count hdrs =
     (case readline reader of
        (Inl e, r) \<Rightarrow>
          (if e = TimeoutError then (Inl (ValueError HeaderTimeout), r) else (Inl e, r))
      | (Inr header_line_bytes, r) \<Rightarrow>
          if header_line_bytes = [] then (Inl (ValueError DisconnectedMidHeaders), r)
          else if MAX_TOTAL_HEADERS < total_size + length header_line_bytes
            then (Inl (ValueError (HeadersTooBig (total_size + length header_line_bytes))), r)
          else (case decode header_line_bytes of
                  None \<Rightarrow> (Inl (ValueError UnicodeDecodeError), r)
                | Some decoded \<Rightarrow>
                    if strip decoded = []
                      then (Inr (hdrs, total_size + length header_line_bytes, header_count), r)
                    else if MAX_HEADER_SIZE < py_len (strip decoded)
                      then (Inl (ValueError (HeaderTooLong (py_len (strip decoded)))), r)
                    else if MAX_HEADERS < header_count + 1
                      then (Inl (ValueError (TooManyHeaders (header_count + 1))), r)
                    else (case find_sep '': '' (strip decoded) of
                            None \<Rightarrow>
                              read_headers r (total_size + length header_line_bytes)
                                (header_count + 1) hdrs
                          | Some (key, val) \<Rightarrow>
                              read_headers r (total_size + length header_line_bytes)
                                (header_count + 1) (dict_set hdrs key val))))"
  by pat_completeness auto
termination
  by (relation "measure (\<lambda>(r, t, n, h). length (buffer r))")
     (auto dest: readline_shrinks [OF sym])

declare read_headers.simps [simp del]

text \<open>Lines 99 to 120: the body, read only under a \<open>Content-Length\<close> header.\<close>

definition read_body :: "StreamReader \<Rightarrow> dict \<Rightarrow> (exn + bytes) \<times> StreamReader" where
  "read_body reader hdrs =
     (case dict_get hdrs ''Content-Length'' of
        None \<Rightarrow> (Inr [], reader)
      | Some v \<Rightarrow>
          (case py_int v of
             InvalidLiteral \<Rightarrow> (Inl (ValueError (InvalidContentLength v)), reader)
           | ExceedsDigitLimit \<Rightarrow> (Inl (ValueError IntegerStringTooLong), reader)
           | IntOk content_length \<Rightarrow>
               if MAX_BODY_SIZE < content_length
                 then (Inl (ValueError (BodyTooBig content_length)), reader)
               else (case readexactly content_length reader of
                       (Inl e, r) \<Rightarrow>
                         (if e = TimeoutError then (Inl (ValueError BodyTimeout), r)
                          else if e = IncompleteReadError
                            then (Inl (ValueError DisconnectedBeforeFullBody), r)
                          else (Inl e, r))
                     | (Inr b, r) \<Rightarrow> (Inr b, r))))"

text \<open>Lines 40 to 60: the request line, read, bounded, decoded and split.\<close>

definition read_request_line ::
  "StreamReader \<Rightarrow> (exn + str \<times> str \<times> str) \<times> StreamReader" where
  "read_request_line reader =
     (case readline reader of
        (Inl e, r) \<Rightarrow>
          (if e = TimeoutError then (Inl (ValueError RequestLineTimeout), r) else (Inl e, r))
      | (Inr request_line_bytes, r) \<Rightarrow>
          if request_line_bytes = [] then (Inl (ValueError DisconnectedBeforeRequestLine), r)
          else if MAX_REQUEST_LINE < length request_line_bytes
            then (Inl (ValueError (RequestLineTooLong (length request_line_bytes))), r)
          else (case decode request_line_bytes of
                  None \<Rightarrow> (Inl (ValueError UnicodeDecodeError), r)
                | Some decoded \<Rightarrow>
                    (case parse_request_line (strip decoded) of
                       Inl e \<Rightarrow> (Inl (ValueError e), r)
                     | Inr mpv \<Rightarrow> (Inr mpv, r))))"

definition parse_request_production :: "StreamReader \<Rightarrow> (exn + HTTPRequest) \<times> StreamReader" where
  "parse_request_production reader =
     (case read_request_line reader of
        (Inl e, r) \<Rightarrow> (Inl e, r)
      | (Inr (m, p, v), r) \<Rightarrow>
          (case read_headers r 0 0 [] of
             (Inl e, r1) \<Rightarrow> (Inl e, r1)
           | (Inr (hdrs, total_size, header_count), r1) \<Rightarrow>
               (case read_body r1 hdrs of
                  (Inl e, r2) \<Rightarrow> (Inl e, r2)
                | (Inr b, r2) \<Rightarrow>
                    (Inr \<lparr>http_method = m, path = p, version = v,
                          headers = hdrs, body = b\<rparr>, r2))))"

section \<open>The server\<close>

definition PROXY_PREFIX :: str where "PROXY_PREFIX = ''/proxy''"

subsection \<open>Metrics\<close>

record Metrics =
  request_count :: nat
  error_count :: nat

definition increment_requests :: "Metrics \<Rightarrow> Metrics" where
  "increment_requests m = m\<lparr>request_count := request_count m + 1\<rparr>"

definition increment_errors :: "Metrics \<Rightarrow> Metrics" where
  "increment_errors m = m\<lparr>error_count := error_count m + 1\<rparr>"

definition snapshot :: "Metrics \<Rightarrow> nat \<times> nat" where
  "snapshot m = (request_count m, error_count m)"

subsection \<open>The stream writer\<close>

text \<open>A writer is the bytes written to it so far and whether it is closing. Writes and
  flushes are taken to succeed.\<close>

record StreamWriter =
  written :: bytes
  closing :: bool

definition writer_write :: "StreamWriter \<Rightarrow> bytes \<Rightarrow> StreamWriter" where
  "writer_write w b = w\<lparr>written := written w @ b\<rparr>"

definition writer_close :: "StreamWriter \<Rightarrow> StreamWriter" where
  "writer_close w = w\<lparr>closing := True\<rparr>"

subsection \<open>Response generators\<close>

definition generate_response :: "HTTPRequest \<Rightarrow> Metrics \<Rightarrow> bytes" where
  "generate_response request metrics =
     (if path request = ''/metrics''
      then (case snapshot metrics of
              (reqs, errs) \<Rightarrow>
                ''requests_total '' @ str_nat reqs @ [LF] @ '' errors_total '' @ str_nat errs @ [LF])
      else ''Hello from DevProxy! You requested: '' @ http_method request @ '' '' @ path request)"

definition send_response :: "StreamWriter \<Rightarrow> bytes \<Rightarrow> StreamWriter" where
  "send_response writer response_body =
     writer_write writer
       (''HTTP/1.1 200 OK'' @ CRLF @
        ''Content-Type: text/plain; charset=utf-8'' @ CRLF @
        ''Content-Length: '' @ str_nat (length response_body) @ CRLF @
        ''Connection: close'' @ CRLF @
        CRLF @
        response_body)"

definition reason_phrase :: "int \<Rightarrow> str" where
  "reason_phrase status =
     (if status = 400 then ''Bad Request''
      else if status = 408 then ''Request Timeout''
      else if status = 500 then ''Internal Server Error''
      else ''Unknown'')"

definition send_error_response :: "StreamWriter \<Rightarrow> int \<Rightarrow> str \<Rightarrow> StreamWriter" where
  "send_error_response writer status message =
     (let error_body = ''Error '' @ py_str status @ '': '' @ message in
      writer_write writer
        (''HTTP/1.1 '' @ py_str status @ '' '' @ reason_phrase status @ CRLF @
         ''Content-Type: text/plain; charset=utf-8'' @ CRLF @
         ''Content-Length: '' @ str_nat (length error_body) @ CRLF @
         ''Connection: close'' @ CRLF @
         CRLF @
         error_body))"

subsection \<open>The forwarder\<close>

text \<open>
  The upstream as the forwarder meets it: how the connection attempt under its 5.0s
  \<open>wait_for\<close> ends, whether flushing the request succeeds, and what the successive
  \<open>read(4096)\<close> calls return (after the last one the stream is at its end and a read
  returns no bytes). Only the connection attempt is under a timeout; every other failure
  is a connection error.
\<close>

datatype connect_outcome = Connected | ConnectTimedOut | ConnectFailed

datatype read_event = Chunk bytes | ReadFailed

record Upstream =
  connect :: connect_outcome
  drain_ok :: bool
  reads :: "read_event list"

text \<open>The forwarder's view of its two connections: the client's writer, the bytes
  written to the upstream writer (\<open>None\<close> while there is no upstream connection) and
  whether the upstream writer has been closed.\<close>

record proxy_state =
  client_writer :: StreamWriter
  upstream_writer :: "bytes option"
  upstream_closed :: bool

text \<open>Lines 126 to 131: stream the response back.\<close>

fun stream_response :: "read_event list \<Rightarrow> StreamWriter \<Rightarrow> exn option \<times> StreamWriter" where
  "stream_response [] w = (None, w)"
| "stream_response (Chunk c # rest) w =
     (if c = [] then (None, w) else stream_response rest (writer_write w c))"
| "stream_response (ReadFailed # rest) w = (Some ConnectionError, w)"

text \<open>Lines 105 to 131: the body of the \<open>try\<close>, with the exception that leaves it.\<close>

definition forward ::
  "StreamWriter \<Rightarrow> HTTPRequest \<Rightarrow> str \<Rightarrow> int \<Rightarrow> Upstream \<Rightarrow> exn option \<times> proxy_state" where
  "forward cw request upstream_host upstream_port up =
     (case connect up of
        ConnectTimedOut \<Rightarrow>
          (Some TimeoutError,
           \<lparr>client_writer = cw, upstream_writer = None, upstream_closed = False\<rparr>)
      | ConnectFailed \<Rightarrow>
          (Some ConnectionError,
           \<lparr>client_writer = cw, upstream_writer = None, upstream_closed = False\<rparr>)
      | Connected \<Rightarrow>
          (let request_line = http_method request @ '' '' @ path request @ '' '' @ version request @ CRLF;
               hs = dict_set (headers request) ''Host'' (upstream_host @ '':'' @ py_str upstream_port);
               header_lines = concat (map (\<lambda>(key, val). key @ '': '' @ val @ CRLF) hs);
               sent = request_line @ header_lines @ CRLF
                        @ (if body request \<noteq> [] then body request else [])
           in if \<not> drain_ok up
              then (Some ConnectionError,
                    \<lparr>client_writer = cw, upstream_writer = Some sent, upstream_closed = False\<rparr>)
              else (case stream_response (reads up) cw of
                      (e, w) \<Rightarrow>
                        (e, \<lparr>client_writer = w, upstream_writer = Some sent,
                              upstream_closed = False\<rparr>))))"

definition GATEWAY_TIMEOUT :: bytes where
  "GATEWAY_TIMEOUT = ''HTTP/1.1 504 Gateway Timeout'' @ CRLF @ ''Content-Length: 0'' @ CRLF @ CRLF"

definition BAD_GATEWAY :: bytes where
  "BAD_GATEWAY = ''HTTP/1.1 502 Bad Gateway'' @ CRLF @ ''Content-Length: 0'' @ CRLF @ CRLF"

text \<open>Lines 133 to 145: the two handlers and the \<open>finally\<close>.\<close>

definition proxy_to_upstream ::
  "StreamWriter \<Rightarrow> HTTPRequest \<Rightarrow> str \<Rightarrow> int \<Rightarrow> Upstream \<Rightarrow> proxy_state" where
  "proxy_to_upstream cw request upstream_host upstream_port up =
     (case forward cw request upstream_host upstream_port up of
        (raised, st) \<Rightarrow>
          (let w = client_writer st;
               st1 =
                 (case raised of
                    None \<Rightarrow> st
                  | Some e \<Rightarrow>
                      if e = TimeoutError
                      then (if \<not> closing w
                            then st\<lparr>client_writer := writer_write w GATEWAY_TIMEOUT\<rparr> else st)
                      else (if \<not> closing w
                            then st\<lparr>client_writer := writer_write w BAD_GATEWAY\<rparr> else st))
           in if upstream_writer st1 \<noteq> None then st1\<lparr>upstream_closed := True\<rparr> else st1))"

subsection \<open>The connection handler\<close>

text \<open>
  What one call of \<open>handle_client\<close> leaves behind: the reader, the client's writer, the
  metrics, and the forwarder's final state when the forwarder was called. The upstream
  host and port are the module's \<open>UPSTREAM_HOST\<close> and \<open>UPSTREAM_PORT\<close>, read from the
  environment, and are parameters here. The semaphore and the log are left out.
\<close>

record handled =
  reader_after :: StreamReader
  writer_after :: StreamWriter
  metrics_after :: Metrics
  forwarded :: "proxy_state option"

definition BAD_REQUEST :: bytes where
  "BAD_REQUEST =
     (let error_msg = ''BAD REQUEST'' in
      ''HTTP/1.1 400 Bad Request'' @ CRLF @
      ''Content-Type: text/plain; charset=utf-8'' @ CRLF @
      ''Content-Length: '' @ str_nat (py_len error_msg) @ CRLF @
      ''Connection: close'' @ CRLF @
      CRLF @ error_msg)"

definition REQUEST_TIMEOUT :: bytes where
  "REQUEST_TIMEOUT =
     ''HTTP/1.1 408 Request Timeout'' @ CRLF @
     ''Content-Type: text/plain; charset=utf-8'' @ CRLF @
     ''Content-Length: 15'' @ CRLF @
     ''Connection: close'' @ CRLF @
     CRLF @ ''Request Timeout''"

definition INTERNAL_ERROR :: bytes where
  "INTERNAL_ERROR =
     ''HTTP/1.1 500 Internal Server Error'' @ CRLF @
     ''Content-Type: text/plain; charset=utf-8'' @ CRLF @
     ''Content-Length: 25'' @ CRLF @
     ''Connection: close'' @ CRLF @
     CRLF @ ''Internal Server Error''"

definition handle_client ::
  "str \<Rightarrow> int \<Rightarrow> Upstream \<Rightarrow> StreamReader \<Rightarrow> StreamWriter \<Rightarrow> Metrics \<Rightarrow> handled" where
  "handle_client upstream_host upstream_port up reader writer metrics =
     (let metrics1 = increment_requests metrics in
      case parse_request_production reader of
        (Inr request, r) \<Rightarrow>
          if startswith (path request) PROXY_PREFIX
          then (let new_path = drop (length PROXY_PREFIX) (path request);
                    new_path1 =
                      (if new_path = [] \<or> \<not> startswith new_path ''/''
                       then ''/'' @ dropWhile (\<lambda>c. c = CHR ''/'') new_path
                       else new_path);
                    proxied_request =
                      \<lparr>http_method = http_method request, path = new_path1, version = version request,
                       headers = headers request, body = body request\<rparr>;
                    st = proxy_to_upstream writer proxied_request upstream_host upstream_port up
                in \<lparr>reader_after = r, writer_after = writer_close (client_writer st),
                    metrics_after = metrics1, forwarded = Some st\<rparr>)
          else (let response = generate_response request metrics1 in
                \<lparr>reader_after = r, writer_after = writer_close (send_response writer response),
                 metrics_after = metrics1, forwarded = None\<rparr>)
      | (Inl e, r) \<Rightarrow>
          (case e of
             ValueError msg \<Rightarrow>
               \<lparr>reader_after = r, writer_after = writer_close (writer_write writer BAD_REQUEST),
                metrics_after = increment_errors metrics1, forwarded = None\<rparr>
           | TimeoutError \<Rightarrow>
               \<lparr>reader_after = r, writer_after = writer_close (writer_write writer REQUEST_TIMEOUT),
                metrics_after = increment_errors metrics1, forwarded = None\<rparr>
           | _ \<Rightarrow>
               \<lparr>reader_after = r, writer_after = writer_close (writer_write writer INTERNAL_ERROR),
                metrics_after = increment_errors metrics1, forwarded = None\<rparr>))"


section \<open>A response as the client reads it\<close>

text \<open>
  The head of a response is its lines up to the blank line; the body is what follows.
  \<open>closes_with_exact_length\<close> follows the words of the specification: the head has a
  \<open>Connection: close\<close> header and a \<open>Content-Length\<close> header whose value is the decimal
  length of the body.
\<close>

function response_parts :: "bytes \<Rightarrow> (bytes list \<times> bytes) option" where
  "response_parts s =
     (case find_sep CRLF s of
        None \<Rightarrow> None
      | Some (l, rest) \<Rightarrow>
          if l = [] then Some ([], rest)
          else (case response_parts rest of
                  None \<Rightarrow> None
                | Some (ls, b) \<Rightarrow> Some (l # ls, b)))"
  by pat_completeness auto
termination
  by (relation "measure length") (auto simp: CRLF_def dest: find_sep_parts find_sep_parts [OF sym])

declare response_parts.simps [simp del]



section \<open>Example connections\<close>

definition fresh_writer :: StreamWriter where
  "fresh_writer = \<lparr>written = [], closing = False\<rparr>"

definition fresh_metrics :: Metrics where
  "fresh_metrics = \<lparr>request_count = 0, error_count = 0\<rparr>"

definition idle_upstream :: Upstream where
  "idle_upstream = \<lparr>connect = ConnectFailed, drain_ok = True, reads = []\<rparr>"





definition answering_upstream :: Upstream where
  "answering_upstream =
     \<lparr>connect = Connected, drain_ok = True,
      reads = [Chunk (''HTTP/1.0 200 OK'' @ CRLF @ CRLF), Chunk ''hello'']\<rparr>"

definition silent_reader :: StreamReader where
  "silent_reader = \<lparr>buffer = [], at_end = Stalled\<rparr>"

definition header_stall_reader :: StreamReader where
  "header_stall_reader =
     \<lparr>buffer = ''GET / HTTP/1.1'' @ CRLF @ ''Host: localhost'', at_end = Stalled\<rparr>"

definition body_stall_reader :: StreamReader where
  "body_stall_reader =
     \<lparr>buffer = ''POST / HTTP/1.1'' @ CRLF @ ''Content-Length: 5'' @ CRLF @ CRLF @ ''ab'',
      at_end = Stalled\<rparr>"

definition http2_reader :: StreamReader where
  "http2_reader =
     \<lparr>buffer = ''GET / HTTP/2.0'' @ CRLF @ ''Host: localhost'' @ CRLF @ CRLF, at_end = Eof\<rparr>"

definition two_token_reader :: StreamReader where
  "two_token_reader =
     \<lparr>buffer = ''GET /'' @ CRLF @ ''Host: localhost'' @ CRLF @ CRLF, at_end = Eof\<rparr>"





definition post_request :: HTTPRequest where
  "post_request =
     \<lparr>http_method = ''POST'', path = ''/submit'', version = ''HTTP/1.1'',
      headers = [(''Content-Length'', ''2''), (''Accept'', ''*/*'')], body = ''hi''\<rparr>"


section \<open>Evaluating the parser on a concrete stream\<close>

lemma py_split_numeral:
  "py_split sep (numeral k) s =
     (case find_sep sep s of
        None \<Rightarrow> [s]
      | Some (a, b) \<Rightarrow> a # py_split sep (pred_numeral k) b)"
  by (simp add: numeral_eq_Suc)

lemmas text_eval =
  CRLF_def CR_def LF_def decode_def strip_def py_len_def is_space_def is_cont_def byte_def
  py_split_numeral

lemmas parser_eval =
  MAX_TOTAL_HEADERS_def MAX_HEADER_SIZE_def MAX_HEADERS_def MAX_REQUEST_LINE_def
  MAX_BODY_SIZE_def readline_def readexactly_def starved_def read_headers.simps read_body_def
  read_request_line_def parse_request_production_def parse_request_line_def dict_get_def
  text_eval

section \<open>Routing and the reserved prefix\<close>









section \<open>Failures of the parser and the status they get\<close>

lemma read_headers_no_timeout:
  "fst (read_headers reader total_size header_count hdrs) \<noteq> Inl TimeoutError"
proof (induction reader total_size header_count hdrs rule: read_headers.induct)
  case (1 reader total_size header_count hdrs)
  show ?case
    apply (subst read_headers.simps)
    using 1 by (auto split: prod.splits sum.splits option.splits)
qed

text \<open>The parser never lets an \<open>asyncio.TimeoutError\<close> out: each phase turns it into a
  \<open>ValueError\<close>, so the handler's 408 branch is not reached from a parse.\<close>

lemma parse_no_timeout:
  "fst (parse_request_production reader) \<noteq> Inl TimeoutError"
  using read_headers_no_timeout
  apply (auto simp: parse_request_production_def read_request_line_def read_body_def
      split: prod.splits sum.splits option.splits int_result.splits if_splits)
  by (metis fst_conv)

lemma handle_client_value_error:
  assumes "fst (parse_request_production reader) = Inl (ValueError e)"
  shows "writer_after (handle_client host port up reader writer metrics)
           = writer_close (writer_write writer BAD_REQUEST)
         \<and> metrics_after (handle_client host port up reader writer metrics)
           = increment_errors (increment_requests metrics)"
  using assms
  by (cases "parse_request_production reader") (simp add: handle_client_def Let_def)

lemma py_int_5: "py_int ''5'' = IntOk 5"
  by code_simp

text \<open>
  C1. A parse that fails because a phase timeout fires is answered with the 400 response
  and its body \<open>BAD REQUEST\<close>, not with the 408 response, in each of the three phases;
  the error counter is incremented. The streams are a client that sends nothing, one that
  stops inside a header line, and one that stops inside the body.
\<close>

theorem parser_timeout_gets_400:
  "fst (parse_request_production silent_reader) = Inl (ValueError RequestLineTimeout)
   \<and> fst (parse_request_production header_stall_reader) = Inl (ValueError HeaderTimeout)
   \<and> fst (parse_request_production body_stall_reader) = Inl (ValueError BodyTimeout)
   \<and> written (writer_after (handle_client ''localhost'' 3001 idle_upstream silent_reader
         fresh_writer fresh_metrics)) = BAD_REQUEST
   \<and> written (writer_after (handle_client ''localhost'' 3001 idle_upstream header_stall_reader
         fresh_writer fresh_metrics)) = BAD_REQUEST
   \<and> written (writer_after (handle_client ''localhost'' 3001 idle_upstream body_stall_reader
         fresh_writer fresh_metrics)) = BAD_REQUEST
   \<and> error_count (metrics_after (handle_client ''localhost'' 3001 idle_upstream silent_reader
         fresh_writer fresh_metrics)) = 1
   \<and> BAD_REQUEST \<noteq> REQUEST_TIMEOUT"
proof -
  have p1: "fst (parse_request_production silent_reader) = Inl (ValueError RequestLineTimeout)"
    by (simp add: parser_eval silent_reader_def)
  have p2: "fst (parse_request_production header_stall_reader) = Inl (ValueError HeaderTimeout)"
    by (simp add: parser_eval header_stall_reader_def)
  have p3: "fst (parse_request_production body_stall_reader) = Inl (ValueError BodyTimeout)"
    by (simp add: parser_eval body_stall_reader_def py_int_5)
  note h = handle_client_value_error [of _ _ "''localhost''" 3001 idle_upstream fresh_writer
      fresh_metrics]
  have ne: "BAD_REQUEST \<noteq> REQUEST_TIMEOUT"
    by code_simp
  have w: "written (writer_close (writer_write fresh_writer BAD_REQUEST)) = BAD_REQUEST"
    by (simp add: writer_close_def writer_write_def fresh_writer_def)
  have c: "error_count (increment_errors (increment_requests fresh_metrics)) = 1"
    by (simp add: increment_errors_def increment_requests_def fresh_metrics_def)
  show ?thesis
    using p1 p2 p3 h [OF p1] h [OF p2] h [OF p3] ne w c by simp
qed

lemma parse_request_line_error:
  "parse_request_line l = Inl e \<Longrightarrow> \<exists>c. e = MalformedRequestLine l c"
  by (auto simp: parse_request_line_def split: list.splits if_splits)

text \<open>
  C3. A request line whose third token is \<open>HTTP/2.0\<close> makes the parse fail with the
  same condition, \<open>Malformed request line\<close>, as a request line of two tokens: the
  \<open>Unsupported HTTP version\<close> error is raised inside the \<open>try\<close> whose handler catches
  every \<open>ValueError\<close>, and survives only as the cause of the error that leaves the parser.
\<close>

theorem unsupported_version_is_malformed:
  "fst (parse_request_production http2_reader)
     = Inl (ValueError (MalformedRequestLine ''GET / HTTP/2.0''
                          (UnsupportedHTTPVersion ''HTTP/2.0'')))
   \<and> fst (parse_request_production two_token_reader)
     = Inl (ValueError (MalformedRequestLine ''GET /'' (NotEnoughValues 2)))"
  by (simp add: parser_eval http2_reader_def two_token_reader_def)

section \<open>The forwarder\<close>





lemma dict_get_set_same: "dict_get (dict_set d k v) k = Some v"
  by (induction d k v rule: dict_set.induct) (auto simp: dict_get_def)

lemma dict_get_set_other: "k' \<noteq> k \<Longrightarrow> dict_get (dict_set d k v) k' = dict_get d k'"
  by (induction d k v rule: dict_set.induct) (auto simp: dict_get_def)

lemma dict_set_others:
  "filter (\<lambda>(a, b). a \<noteq> k) (dict_set d k v) = filter (\<lambda>(a, b). a \<noteq> k) d"
  by (induction d k v rule: dict_set.induct) auto

lemma dict_set_keys:
  "map fst (dict_set d k v) = (if k \<in> fst ` set d then map fst d else map fst d @ [k])"
  by (induction d k v rule: dict_set.induct) auto

text \<open>
  C9. Once the upstream connection is open, the bytes written to it are the request line
  of the forwarded request, then its headers in their order with the value of \<open>Host\<close>
  replaced by \<open>upstream_host:upstream_port\<close> (appended last when the request has no
  \<open>Host\<close>), then the blank line, then the body. Every header other than \<open>Host\<close> is sent
  as it is: none is added, removed or altered.
\<close>

theorem forwarded_bytes:
  assumes "connect up = Connected"
  shows "(let hs = dict_set (headers request) ''Host'' (host @ '':'' @ py_str port) in
     upstream_writer (proxy_to_upstream cw request host port up)
       = Some (http_method request @ '' '' @ path request @ '' '' @ version request @ CRLF
               @ concat (map (\<lambda>(k, v). k @ '': '' @ v @ CRLF) hs) @ CRLF @ body request)
     \<and> dict_get hs ''Host'' = Some (host @ '':'' @ py_str port)
     \<and> filter (\<lambda>(k, v). k \<noteq> ''Host'') hs = filter (\<lambda>(k, v). k \<noteq> ''Host'') (headers request)
     \<and> map fst hs = (if ''Host'' \<in> fst ` set (headers request) then map fst (headers request)
                     else map fst (headers request) @ [''Host'']))"
proof -
  have "upstream_writer (proxy_to_upstream cw request host port up)
       = Some (http_method request @ '' '' @ path request @ '' '' @ version request @ CRLF
               @ concat (map (\<lambda>(k, v). k @ '': '' @ v @ CRLF)
                   (dict_set (headers request) ''Host'' (host @ '':'' @ py_str port)))
               @ CRLF @ body request)"
    using assms
    by (cases "stream_response (reads up) cw"; cases "fst (stream_response (reads up) cw)")
       (simp_all add: proxy_to_upstream_def forward_def Let_def)
  then show ?thesis
    by (simp only: Let_def dict_get_set_same dict_set_others dict_set_keys simp_thms)
qed

theorem forwarded_bytes_witness:
  "connect answering_upstream = Connected
   \<and> upstream_writer (proxy_to_upstream fresh_writer post_request ''localhost'' 3001
        answering_upstream)
     = Some (''POST /submit HTTP/1.1'' @ CRLF @ ''Content-Length: 2'' @ CRLF @ ''Accept: */*'' @ CRLF
             @ ''Host: localhost:3001'' @ CRLF @ CRLF @ ''hi'')"
proof -
  have c: "connect answering_upstream = Connected"
    by (simp add: answering_upstream_def)
  have p: "py_str 3001 = ''3001''"
    by code_simp
  note t = forwarded_bytes [OF c, of post_request "''localhost''" 3001 fresh_writer,
      unfolded Let_def, THEN conjunct1]
  have d: "dict_set (headers post_request) ''Host'' (''localhost'' @ '':'' @ py_str 3001)
             = [(''Content-Length'', ''2''), (''Accept'', ''*/*''), (''Host'', ''localhost:3001'')]"
    by (simp add: post_request_def p)
  show ?thesis
    using c t unfolding d by (simp add: post_request_def)
qed

section \<open>The framing of the generated responses\<close>

lemma find_sep_CRLF: "CR \<notin> set l \<Longrightarrow> find_sep CRLF (l @ CRLF @ rest) = Some (l, rest)"
  by (induction l) (auto simp: CRLF_def)

lemma response_parts_line:
  "CR \<notin> set l \<Longrightarrow> l \<noteq> [] \<Longrightarrow>
   response_parts (l @ CRLF @ rest) =
     (case response_parts rest of None \<Rightarrow> None | Some (ls, b) \<Rightarrow> Some (l # ls, b))"
  by (subst response_parts.simps) (simp add: find_sep_CRLF)

lemma response_parts_blank: "response_parts (CRLF @ b) = Some ([], b)"
  using find_sep_CRLF [of "[]" b] by (subst response_parts.simps) simp


lemma response_parts_two:
  assumes "CR \<notin> set l1" "CR \<notin> set l2" and "l1 \<noteq> []" "l2 \<noteq> []"
  shows "response_parts (l1 @ CRLF @ l2 @ CRLF @ CRLF @ b) = Some ([l1, l2], b)"
  using assms by (simp add: response_parts_line response_parts_blank)



lemma str_nat_nonempty: "str_nat n \<noteq> []"
  by (subst str_nat.simps) simp








end
